theory Spec2Isabelle
  imports Complex_Main
begin

section \<open>The page: element objects and the document tree\<close>

text \<open>
  \<^verbatim>\<open>script.js\<close> is straight-line code over the DOM. Element objects are referred to
  by reference; the properties the script reads or writes (tag name, \<^verbatim>\<open>id\<close>, the class
  token list, \<^verbatim>\<open>disabled\<close>) live in a store indexed by reference, so that an object stays
  usable after it is removed from the document. The document itself is a tree of element
  references and text nodes, read in tree order by the query functions.

  Strings are byte strings holding the UTF-8 form of the JavaScript string; the script only
  compares strings for equality and stores them, and the encoding is injective.
\<close>

type_synonym ref = nat

record element =
  localName :: string
  id_attr :: "string option"
  classList :: "string list"
  disabled :: bool

datatype node = Element ref "node list" | Text string

record intersection_observer =
  thresholds :: "rat list"
  observationTargets :: "ref list"

record page =
  root :: node
  heap :: "ref \<Rightarrow> element"
  observer :: "intersection_observer option"
  listeners :: "ref list"

text \<open>
  \<open>observer\<close> is the script's \<^verbatim>\<open>const observer\<close> (absent until the script creates it);
  \<open>listeners\<close> are the elements that carry the script's \<^verbatim>\<open>submit\<close> listener.
\<close>

datatype error = TypeError | RangeError

subsection \<open>Tree order\<close>

fun elements :: "node \<Rightarrow> ref list"
  and elements_list :: "node list \<Rightarrow> ref list" where
  "elements (Text t) = []"
| "elements (Element r kids) = r # elements_list kids"
| "elements_list [] = []"
| "elements_list (k # ks) = elements k @ elements_list ks"

text \<open>The children of the first node in tree order that is the element \<open>r\<close>.\<close>

fun children_of :: "ref \<Rightarrow> node \<Rightarrow> node list option"
  and children_in :: "ref \<Rightarrow> node list \<Rightarrow> node list option" where
  "children_of r (Text t) = None"
| "children_of r (Element r' kids) = (if r' = r then Some kids else children_in r kids)"
| "children_in r [] = None"
| "children_in r (k # ks) =
     (case children_of r k of Some c \<Rightarrow> Some c | None \<Rightarrow> children_in r ks)"

subsection \<open>Selectors and queries\<close>

text \<open>The two kinds of selector the script uses: \<^verbatim>\<open>.name\<close> and a tag name.\<close>

datatype selector = ClassSel string | TypeSel string

fun matches :: "element \<Rightarrow> selector \<Rightarrow> bool" where
  "matches e (ClassSel c) = (c \<in> set (classList e))"
| "matches e (TypeSel t) = (localName e = t)"

definition querySelectorAll :: "page \<Rightarrow> selector \<Rightarrow> ref list" where
  "querySelectorAll s sel = filter (\<lambda>r. matches (heap s r) sel) (elements (root s))"

definition querySelector :: "page \<Rightarrow> selector \<Rightarrow> ref option" where
  "querySelector s sel = find (\<lambda>r. matches (heap s r) sel) (elements (root s))"

definition getElementById :: "page \<Rightarrow> string \<Rightarrow> ref option" where
  "getElementById s i = find (\<lambda>r. id_attr (heap s r) = Some i) (elements (root s))"

text \<open>
  \<^verbatim>\<open>element.querySelector\<close>: the first match among the descendants of the element, the
  element itself excluded. The tree records the structure of connected nodes only, and a
  submit event is fired at a connected form.
\<close>

definition querySelector_in :: "page \<Rightarrow> ref \<Rightarrow> selector \<Rightarrow> ref option" where
  "querySelector_in s r sel =
     (case children_of r (root s) of
        None \<Rightarrow> None
      | Some kids \<Rightarrow> find (\<lambda>d. matches (heap s d) sel) (elements_list kids))"

subsection \<open>\<^verbatim>\<open>textContent\<close>\<close>

fun text_of :: "node \<Rightarrow> string"
  and text_of_list :: "node list \<Rightarrow> string" where
  "text_of (Text t) = t"
| "text_of (Element r kids) = text_of_list kids"
| "text_of_list [] = []"
| "text_of_list (k # ks) = text_of k @ text_of_list ks"

definition textContent :: "page \<Rightarrow> ref \<Rightarrow> string option" where
  "textContent s r = map_option text_of_list (children_of r (root s))"

text \<open>
  The setter replaces all children of the element by one text node, or by nothing when
  the string is empty.
\<close>

definition text_children :: "string \<Rightarrow> node list" where
  "text_children v = (if v = [] then [] else [Text v])"

fun replace_children :: "ref \<Rightarrow> node list \<Rightarrow> node \<Rightarrow> node"
  and replace_children_list :: "ref \<Rightarrow> node list \<Rightarrow> node list \<Rightarrow> node list" where
  "replace_children r new (Text t) = Text t"
| "replace_children r new (Element r' kids) =
     (if r' = r then Element r' new else Element r' (replace_children_list r new kids))"
| "replace_children_list r new [] = []"
| "replace_children_list r new (k # ks) =
     replace_children r new k # replace_children_list r new ks"

definition set_textContent :: "ref \<Rightarrow> string \<Rightarrow> page \<Rightarrow> page" where
  "set_textContent r v s = s\<lparr>root := replace_children r (text_children v) (root s)\<rparr>"

definition set_disabled :: "ref \<Rightarrow> bool \<Rightarrow> page \<Rightarrow> page" where
  "set_disabled r b s = s\<lparr>heap := (heap s)(r := (heap s r)\<lparr>disabled := b\<rparr>)\<rparr>"

subsection \<open>\<^verbatim>\<open>classList.add\<close>\<close>

text \<open>
  \<^verbatim>\<open>DOMTokenList.add\<close> appends the token to the ordered token set unless it is already
  a member. (It raises for an empty token or one with white space; the script passes the
  literal \<^verbatim>\<open>'visible'\<close>.)
\<close>

definition add_token :: "string \<Rightarrow> string list \<Rightarrow> string list" where
  "add_token tok cl = (if tok \<in> set cl then cl else cl @ [tok])"

definition classList_add :: "ref \<Rightarrow> string \<Rightarrow> page \<Rightarrow> page" where
  "classList_add r tok s =
     s\<lparr>heap := (heap s)(r := (heap s r)\<lparr>classList := add_token tok (classList (heap s r))\<rparr>)\<rparr>"

section \<open>The viewport reveal controller (script.js, lines 1 to 13)\<close>

record entry =
  target :: ref
  isIntersecting :: bool

text \<open>
  \<^verbatim>\<open>(entries) => { entries.forEach((entry) => { if (entry.isIntersecting) {
     entry.target.classList.add('visible'); } }); }\<close>
\<close>

definition on_entry :: "entry \<Rightarrow> page \<Rightarrow> page" where
  "on_entry e s = (if isIntersecting e then classList_add (target e) ''visible'' s else s)"

definition callback :: "entry list \<Rightarrow> page \<Rightarrow> page" where
  "callback entries s = fold on_entry entries s"

text \<open>The host calls the callback once for every batch of entries it has queued.\<close>

definition deliver :: "entry list list \<Rightarrow> page \<Rightarrow> page" where
  "deliver batches s = fold callback batches s"

text \<open>
  \<^verbatim>\<open>new IntersectionObserver(callback, { threshold: t })\<close> raises a RangeError for a
  threshold outside [0, 1].
\<close>

definition new_IntersectionObserver :: "rat \<Rightarrow> error + intersection_observer" where
  "new_IntersectionObserver t =
     (if t < 0 \<or> 1 < t then Inl RangeError
      else Inr \<lparr>thresholds = [t], observationTargets = []\<rparr>)"

text \<open>\<^verbatim>\<open>observer.observe(element)\<close> does nothing for an element already observed.\<close>

definition observe :: "ref \<Rightarrow> intersection_observer \<Rightarrow> intersection_observer" where
  "observe r ob =
     (if r \<in> set (observationTargets ob) then ob
      else ob\<lparr>observationTargets := observationTargets ob @ [r]\<rparr>)"

text \<open>The literal \<^verbatim>\<open>0.2\<close> of the options object, taken as the exact fraction.\<close>

definition threshold :: rat where
  "threshold = 2 / 10"

definition init_reveal :: "page \<Rightarrow> error option \<times> page" where
  "init_reveal s =
     (let revealElements = querySelectorAll s (ClassSel ''reveal'') in
      case new_IntersectionObserver threshold of
        Inl e \<Rightarrow> (Some e, s)
      | Inr ob \<Rightarrow> (None, s\<lparr>observer := Some (fold observe revealElements ob)\<rparr>))"

section \<open>The footer year stamper (line 15)\<close>

text \<open>
  \<^verbatim>\<open>new Date().getFullYear()\<close> is an input: the calendar year of the host's clock, in
  local time, when the script runs.
\<close>

record env =
  getFullYear :: int

definition digit_char :: "nat \<Rightarrow> char" where
  "digit_char d = ''0123456789'' ! d"

fun decimal :: "nat \<Rightarrow> string" where
  "decimal n = (if n < 10 then [digit_char n] else decimal (n div 10) @ [digit_char (n mod 10)])"

declare decimal.simps [simp del]

text \<open>The string conversion applied by the \<^verbatim>\<open>textContent\<close> setter to an integral Number.\<close>

definition Number_toString :: "int \<Rightarrow> string" where
  "Number_toString y = (if y < 0 then CHR ''-'' # decimal (nat (- y)) else decimal (nat y))"

text \<open>
  \<^verbatim>\<open>document.getElementById('year').textContent = new Date().getFullYear();\<close>
  Assigning to a property of \<^verbatim>\<open>null\<close> raises a TypeError.
\<close>

definition stamp_year :: "env \<Rightarrow> page \<Rightarrow> error option \<times> page" where
  "stamp_year ev s =
     (case getElementById s ''year'' of
        None \<Rightarrow> (Some TypeError, s)
      | Some y \<Rightarrow> (None, set_textContent y (Number_toString (getFullYear ev)) s))"

section \<open>The form submission interceptor (lines 17 to 22)\<close>

record submit_event =
  event_target :: ref
  defaultPrevented :: bool

text \<open>
  \<open>event_target\<close> is \<^verbatim>\<open>event.target\<close>, the form being submitted. A submit event is
  cancelable, so \<^verbatim>\<open>preventDefault()\<close> sets the flag. An exception raised inside a listener
  is reported by the host; the changes made before it stay.
\<close>

definition submitted_label :: string where
  "submitted_label = ''Project Submitted '' @ [CHR 0xE2, CHR 0x9C, CHR 0x93]"

definition submit_handler :: "submit_event \<Rightarrow> page \<Rightarrow> error option \<times> submit_event \<times> page" where
  "submit_handler event s =
     (let event' = event\<lparr>defaultPrevented := True\<rparr> in
      case querySelector_in s (event_target event) (TypeSel ''button'') of
        None \<Rightarrow> (Some TypeError, event', s)
      | Some button \<Rightarrow>
          (None, event', set_disabled button True (set_textContent button submitted_label s)))"

definition addEventListener :: "ref \<Rightarrow> page \<Rightarrow> page" where
  "addEventListener r s = s\<lparr>listeners := listeners s @ [r]\<rparr>"

definition bind_form :: "page \<Rightarrow> error option \<times> page" where
  "bind_form s =
     (case querySelector s (ClassSel ''upload-form'') of
        None \<Rightarrow> (Some TypeError, s)
      | Some f \<Rightarrow> (None, addEventListener f s))"

section \<open>The script\<close>

text \<open>
  The statements run in order; an uncaught exception ends the script and leaves the page
  as the statements before it made it.
\<close>

definition rest_of_script :: "env \<Rightarrow> page \<Rightarrow> error option \<times> page" where
  "rest_of_script ev s1 =
     (case stamp_year ev s1 of
        (Some e, s2) \<Rightarrow> (Some e, s2)
      | (None, s2) \<Rightarrow> bind_form s2)"

definition run_script :: "env \<Rightarrow> page \<Rightarrow> error option \<times> page" where
  "run_script ev s0 =
     (case init_reveal s0 of
        (Some e, s1) \<Rightarrow> (Some e, s1)
      | (None, s1) \<Rightarrow> rest_of_script ev s1)"

definition is_visible :: "page \<Rightarrow> ref \<Rightarrow> bool" where
  "is_visible s r = (''visible'' \<in> set (classList (heap s r)))"

section \<open>The host's intersection observation\<close>

text \<open>
  The entries the callback receives are made by the host, from the observer the script
  created. The script fixes the threshold and the registered elements; what the host does
  with them is not in \<^verbatim>\<open>script.js\<close> and is taken from the spec: an intersection event
  carries the target element and the boolean \<open>isIntersecting\<close>, is produced by the platform
  for the registered elements, and the threshold is the "minimum fraction (0 to 1) of an
  element's area that must be within the viewport to count as intersecting".
\<close>

text \<open>
  Modelled from the spec: one result of the host's geometry computation (the browser's,
  absent from the repository): an element and the fraction of its area that is within
  the viewport, as the host has computed it.
\<close>

record observation =
  observed :: ref
  ratio :: rat

text \<open>
  Modelled from the spec: the host's test of a ratio against the thresholds of an observer
  (the browser's, absent from the repository): the element counts as intersecting when the
  ratio is at least the minimum fraction.
\<close>

definition counts_as_intersecting :: "intersection_observer \<Rightarrow> rat \<Rightarrow> bool" where
  "counts_as_intersecting ob q = list_ex (\<lambda>t. t \<le> q) (thresholds ob)"

text \<open>
  Modelled from the spec: the entries the host queues for a round of observations (the
  browser's, absent from the repository): one entry for each observation of a registered
  element, in order, with \<open>isIntersecting\<close> set by the threshold test.
\<close>

definition notify :: "intersection_observer \<Rightarrow> observation list \<Rightarrow> entry list" where
  "notify ob obs =
     map (\<lambda>x. \<lparr>target = observed x, isIntersecting = counts_as_intersecting ob (ratio x)\<rparr>)
       (filter (\<lambda>x. observed x \<in> set (observationTargets ob)) obs)"

text \<open>
  Modelled from the spec: one notification by the host (the browser's, absent from the
  repository): the callback of the page's observer is called with the queued entries;
  a page without an observer gets none.
\<close>

definition host_step :: "observation list \<Rightarrow> page \<Rightarrow> page" where
  "host_step obs s =
     (case observer s of None \<Rightarrow> s | Some ob \<Rightarrow> callback (notify ob obs) s)"

text \<open>
  Modelled from the spec: the host's notifications over the life of the page (the
  browser's, absent from the repository), one round of observations after the other.
\<close>

definition host_run :: "observation list list \<Rightarrow> page \<Rightarrow> page" where
  "host_run rounds s = fold host_step rounds s"

section \<open>A sample page\<close>

text \<open>
  Three revealable sections, an upload form with its button, and the footer with the year
  placeholder. The variants drop the year placeholder, the form or the revealable sections.
\<close>

definition blank :: element where
  "blank = \<lparr>localName = ''div'', id_attr = None, classList = [], disabled = False\<rparr>"

definition sample_heap :: "ref \<Rightarrow> element" where
  "sample_heap = (\<lambda>r. blank)
     (1 := blank\<lparr>localName := ''section'', classList := [''card'', ''reveal'']\<rparr>,
      2 := blank\<lparr>localName := ''section'', classList := [''reveal'']\<rparr>,
      3 := blank\<lparr>localName := ''section'', classList := [''reveal'', ''visible'']\<rparr>,
      4 := blank\<lparr>localName := ''form'', classList := [''upload-form'']\<rparr>,
      5 := blank\<lparr>localName := ''button''\<rparr>,
      6 := blank\<lparr>localName := ''span'', id_attr := Some ''year''\<rparr>)"

definition sample_root :: node where
  "sample_root =
     Element 0
       [Element 1 [Text ''A''], Element 2 [Text ''B''], Element 3 [Text ''C''],
        Element 4 [Text ''File: '', Element 5 [Text ''Upload'']],
        Element 7 [Text ''(c) '', Element 6 []]]"

definition sample_page :: page where
  "sample_page = \<lparr>root = sample_root, heap = sample_heap, observer = None, listeners = []\<rparr>"

definition page_without_year :: page where
  "page_without_year = sample_page\<lparr>heap := sample_heap(6 := blank)\<rparr>"

definition page_without_form :: page where
  "page_without_form = sample_page\<lparr>heap := sample_heap(4 := blank)\<rparr>"

definition page_without_reveal :: page where
  "page_without_reveal = sample_page\<lparr>heap := sample_heap(1 := blank, 2 := blank, 3 := blank)\<rparr>"

definition sample_env :: env where
  "sample_env = \<lparr>getFullYear = 2026\<rparr>"

section \<open>Facts about the token list and the callback\<close>

lemma add_token_idem: "add_token tok (add_token tok cl) = add_token tok cl"
  by (simp add: add_token_def)

lemma add_token_member: "tok \<in> set (add_token tok cl)"
  by (simp add: add_token_def)

lemma add_token_keeps: "set cl \<subseteq> set (add_token tok cl)"
  by (auto simp: add_token_def)

lemma add_token_distinct: "distinct cl \<Longrightarrow> distinct (add_token tok cl)"
  by (simp add: add_token_def)

lemma add_token_count:
  "distinct cl \<Longrightarrow> count_list (add_token tok cl) tok = 1"
  by (induction cl) (auto simp: add_token_def count_list_0_iff)

lemma heap_on_entry:
  "heap (on_entry e s) =
     (\<lambda>r. if isIntersecting e \<and> target e = r
          then (heap s r)\<lparr>classList := add_token ''visible'' (classList (heap s r))\<rparr>
          else heap s r)"
  by (auto simp: on_entry_def classList_add_def fun_eq_iff)

lemma on_entry_rest:
  "root (on_entry e s) = root s" "observer (on_entry e s) = observer s"
  "listeners (on_entry e s) = listeners s"
  by (simp_all add: on_entry_def classList_add_def)

lemma on_entry_idem: "on_entry e (on_entry e s) = on_entry e s"
  by (simp add: on_entry_def classList_add_def add_token_idem)

lemma callback_rest:
  "root (callback es s) = root s \<and> observer (callback es s) = observer s
     \<and> listeners (callback es s) = listeners s"
  unfolding callback_def
  by (induction es arbitrary: s) (simp_all add: on_entry_rest)

text \<open>
  What a batch does to one element depends only on whether the element is the target of
  an intersecting entry of the batch.
\<close>

lemma heap_callback:
  "heap (callback es s) r =
     (if r \<in> set (map target (filter isIntersecting es))
      then (heap s r)\<lparr>classList := add_token ''visible'' (classList (heap s r))\<rparr>
      else heap s r)"
  unfolding callback_def
proof (induction es arbitrary: s)
  case Nil
  show ?case by simp
next
  case (Cons e es)
  show ?case
    by (simp add: Cons.IH heap_on_entry add_token_idem)
qed

lemma callback_append: "callback (es @ es') s = callback es' (callback es s)"
  by (simp add: callback_def)

lemma deliver_concat: "deliver batches s = callback (concat batches) s"
  unfolding deliver_def
  by (induction batches arbitrary: s) (simp_all add: callback_def)

section \<open>Facts about the document tree\<close>

lemma replace_children_absent:
  "r \<notin> set (elements n) \<Longrightarrow> replace_children r new n = n"
  "r \<notin> set (elements_list ns) \<Longrightarrow> replace_children_list r new ns = ns"
  by (induction n and ns rule: elements_elements_list.induct) auto

lemma children_of_absent:
  "r \<notin> set (elements n) \<Longrightarrow> children_of r n = None"
  "r \<notin> set (elements_list ns) \<Longrightarrow> children_in r ns = None"
  by (induction n and ns rule: elements_elements_list.induct) auto

lemma children_of_replace:
  "r \<in> set (elements n) \<Longrightarrow> children_of r (replace_children r new n) = Some new"
  "r \<in> set (elements_list ns) \<Longrightarrow>
     children_in r (replace_children_list r new ns) = Some new"
proof (induction n and ns rule: elements_elements_list.induct)
  case (4 k ks)
  show ?case
  proof (cases "r \<in> set (elements k)")
    case True
    then show ?thesis using 4 by simp
  next
    case False
    then have "r \<in> set (elements_list ks)" using 4 by simp
    then show ?thesis using False 4
      by (simp add: replace_children_absent children_of_absent)
  qed
qed auto

lemma children_of_elements:
  "children_of r n = Some kids \<Longrightarrow> set (elements_list kids) \<subseteq> set (elements n)"
  "children_in r ns = Some kids \<Longrightarrow> set (elements_list kids) \<subseteq> set (elements_list ns)"
  by (induction n and ns rule: elements_elements_list.induct)
     (auto split: if_splits option.splits)

lemma text_of_text_children: "text_of_list (text_children v) = v"
  by (simp add: text_children_def)

lemma textContent_set_textContent:
  "r \<in> set (elements (root s)) \<Longrightarrow> textContent (set_textContent r v s) r = Some v"
  by (simp add: textContent_def set_textContent_def children_of_replace text_of_text_children)

lemma find_member: "find P xs = Some x \<Longrightarrow> x \<in> set xs"
  by (auto simp: find_Some_iff)

lemma getElementById_connected:
  "getElementById s i = Some r \<Longrightarrow> r \<in> set (elements (root s))"
  unfolding getElementById_def by (rule find_member)

lemma querySelector_in_connected:
  "querySelector_in s r sel = Some b \<Longrightarrow> b \<in> set (elements (root s))"
  unfolding querySelector_in_def
  by (auto split: option.splits dest!: children_of_elements(1) find_member)

section \<open>Facts about the script\<close>

lemma observe_thresholds: "thresholds (fold observe rs ob) = thresholds ob"
  by (induction rs arbitrary: ob) (simp_all add: observe_def)

lemma observe_targets:
  "set (observationTargets (fold observe rs ob)) = set (observationTargets ob) \<union> set rs"
  by (induction rs arbitrary: ob) (auto simp: observe_def)

lemma observe_distinct:
  "distinct (observationTargets ob) \<Longrightarrow> distinct (observationTargets (fold observe rs ob))"
  by (induction rs arbitrary: ob) (simp_all add: observe_def)

lemma threshold_in_range: "\<not> (threshold < 0 \<or> 1 < threshold)"
  by (simp add: threshold_def)

lemma init_reveal_eq:
  "init_reveal s =
     (None, s\<lparr>observer := Some (fold observe (querySelectorAll s (ClassSel ''reveal''))
                                   \<lparr>thresholds = [threshold], observationTargets = []\<rparr>)\<rparr>)"
  by (simp add: init_reveal_def new_IntersectionObserver_def threshold_in_range)

lemma queries_ignore_observer:
  "getElementById (s\<lparr>observer := ob\<rparr>) i = getElementById s i"
  "querySelector (s\<lparr>observer := ob\<rparr>) sel = querySelector s sel"
  "set_textContent r v (s\<lparr>observer := ob\<rparr>) = (set_textContent r v s)\<lparr>observer := ob\<rparr>"
  "addEventListener r (s\<lparr>observer := ob\<rparr>) = (addEventListener r s)\<lparr>observer := ob\<rparr>"
  by (simp_all add: getElementById_def querySelector_def set_textContent_def
      addEventListener_def)

lemma stamp_year_observer:
  "stamp_year ev (s\<lparr>observer := ob\<rparr>) =
     (fst (stamp_year ev s), (snd (stamp_year ev s))\<lparr>observer := ob\<rparr>)"
  by (simp add: stamp_year_def queries_ignore_observer split: option.splits)

lemma bind_form_observer:
  "bind_form (s\<lparr>observer := ob\<rparr>) =
     (fst (bind_form s), (snd (bind_form s))\<lparr>observer := ob\<rparr>)"
  by (simp add: bind_form_def queries_ignore_observer split: option.splits)

lemma rest_of_script_observer:
  "rest_of_script ev (s\<lparr>observer := ob\<rparr>) =
     (fst (rest_of_script ev s), (snd (rest_of_script ev s))\<lparr>observer := ob\<rparr>)"
  by (simp add: rest_of_script_def stamp_year_observer bind_form_observer
      split: prod.splits option.splits)

lemma run_script_eq:
  "run_script ev s =
     (fst (rest_of_script ev s),
      (snd (rest_of_script ev s))
        \<lparr>observer := Some (fold observe (querySelectorAll s (ClassSel ''reveal''))
                              \<lparr>thresholds = [threshold], observationTargets = []\<rparr>)\<rparr>)"
  by (simp add: run_script_def init_reveal_eq rest_of_script_observer)

lemma rest_of_script_heap: "heap (snd (rest_of_script ev s)) = heap s"
  by (simp add: rest_of_script_def stamp_year_def bind_form_def set_textContent_def
      addEventListener_def split: option.splits)

lemma run_script_heap: "heap (snd (run_script ev s)) = heap s"
  by (simp add: run_script_eq rest_of_script_heap)

lemma bind_form_root: "root (snd (bind_form s)) = root s"
  by (simp add: bind_form_def addEventListener_def split: option.splits)

lemma rest_of_script_year:
  assumes "getElementById s ''year'' = Some y"
  shows "textContent (snd (rest_of_script ev s)) y = Some (Number_toString (getFullYear ev))"
proof -
  let ?s2 = "set_textContent y (Number_toString (getFullYear ev)) s"
  have "textContent ?s2 y = Some (Number_toString (getFullYear ev))"
    using assms by (simp add: textContent_set_textContent getElementById_connected)
  moreover have "root (snd (rest_of_script ev s)) = root ?s2"
    using assms by (simp add: rest_of_script_def stamp_year_def bind_form_root)
  ultimately show ?thesis by (simp add: textContent_def)
qed

lemma textContent_observer: "textContent (s\<lparr>observer := ob\<rparr>) r = textContent s r"
  by (simp add: textContent_def)

lemma run_script_year:
  "getElementById s ''year'' = Some y \<Longrightarrow>
     textContent (snd (run_script ev s)) y = Some (Number_toString (getFullYear ev))"
  by (simp add: run_script_eq textContent_observer rest_of_script_year)

lemma decimal_four_digits:
  assumes "1000 \<le> n" and "n \<le> 9999"
  shows "decimal n =
     [digit_char (n div 1000), digit_char (n div 100 mod 10),
      digit_char (n div 10 mod 10), digit_char (n mod 10)]"
proof -
  have n1: "\<not> n < 10" and n2: "\<not> n div 10 < 10" and n3: "\<not> n div 100 < 10"
    and n4: "n div 1000 < 10"
    using assms by simp_all
  have a: "decimal n = decimal (n div 10) @ [digit_char (n mod 10)]"
    using n1 by (subst decimal.simps) simp
  have b: "decimal (n div 10) = decimal (n div 100) @ [digit_char (n div 10 mod 10)]"
    using n2 by (subst decimal.simps) (simp add: div_mult2_eq [symmetric])
  have c: "decimal (n div 100) = decimal (n div 1000) @ [digit_char (n div 100 mod 10)]"
    using n3 by (subst decimal.simps) (simp add: div_mult2_eq [symmetric])
  have d: "decimal (n div 1000) = [digit_char (n div 1000)]"
    using n4 by (subst decimal.simps) simp
  show ?thesis by (simp add: a b c d)
qed

lemmas sample_defs = sample_page_def sample_root_def sample_heap_def blank_def
  page_without_year_def page_without_form_def page_without_reveal_def sample_env_def

lemmas script_defs = run_script_def init_reveal_def new_IntersectionObserver_def threshold_def
  rest_of_script_def stamp_year_def bind_form_def getElementById_def querySelector_def
  querySelectorAll_def observe_def set_textContent_def addEventListener_def text_children_def


lemma elements_replace_children:
  "set (elements_list new) \<subseteq> {} \<Longrightarrow>
     set (elements (replace_children r new n)) \<subseteq> set (elements n)"
  "set (elements_list new) \<subseteq> {} \<Longrightarrow>
     set (elements_list (replace_children_list r new ns)) \<subseteq> set (elements_list ns)"
  by (induction n and ns rule: elements_elements_list.induct) auto

lemma elements_text_children: "elements_list (text_children v) = []"
  by (simp add: text_children_def)

lemma find_None_subset: "find P xs = None \<Longrightarrow> set ys \<subseteq> set xs \<Longrightarrow> find P ys = None"
  by (auto simp: find_None_iff)

lemma querySelector_after_stamp:
  assumes "querySelector s sel = None"
  shows "querySelector (set_textContent r v s) sel = None"
proof -
  have "set (elements (replace_children r (text_children v) (root s))) \<subseteq> set (elements (root s))"
    by (rule elements_replace_children) (simp add: elements_text_children)
  then show ?thesis
    using assms unfolding querySelector_def set_textContent_def
    by (simp add: find_None_subset)
qed

lemma textContent_set_disabled: "textContent (set_disabled r b s) q = textContent s q"
  by (simp add: textContent_def set_disabled_def)

section \<open>Facts about the host's notifications\<close>

lemma is_visible_callback:
  "is_visible (callback es s) r
     = (is_visible s r \<or> r \<in> set (map target (filter isIntersecting es)))"
  by (simp add: is_visible_def heap_callback add_token_member)

lemma host_run_deliver:
  "observer s = Some ob \<Longrightarrow> host_run rounds s = deliver (map (notify ob) rounds) s"
  unfolding host_run_def deliver_def
  by (induction rounds arbitrary: s) (simp_all add: host_step_def callback_rest)

lemma targets_notify:
  "map target (filter isIntersecting (notify ob obs))
     = map observed (filter (\<lambda>x. observed x \<in> set (observationTargets ob)
         \<and> counts_as_intersecting ob (ratio x)) obs)"
  unfolding notify_def by (induction obs) simp_all

lemma member_map_filter:
  "r \<in> set (map f (filter P xs)) = list_ex (\<lambda>x. f x = r \<and> P x) xs"
  by (induction xs) auto

lemma revealed_notify:
  "r \<in> set (map target (filter isIntersecting (notify ob obs)))
     = (r \<in> set (observationTargets ob)
        \<and> list_ex (\<lambda>x. observed x = r \<and> counts_as_intersecting ob (ratio x)) obs)"
  unfolding targets_notify member_map_filter
  by (induction obs) auto

lemma revealed_rounds:
  "r \<in> set (map target (filter isIntersecting (concat (map (notify ob) rounds))))
     = (r \<in> set (observationTargets ob)
        \<and> list_ex (\<lambda>x. observed x = r \<and> counts_as_intersecting ob (ratio x)) (concat rounds))"
proof (induction rounds)
  case Nil
  show ?case by simp
next
  case (Cons obs rounds)
  have "r \<in> set (map target (filter isIntersecting (concat (map (notify ob) (obs # rounds)))))
      = (r \<in> set (map target (filter isIntersecting (notify ob obs)))
         \<or> r \<in> set (map target (filter isIntersecting (concat (map (notify ob) rounds)))))"
    by auto
  then show ?case
    unfolding Cons.IH revealed_notify by auto
qed

lemma is_visible_host_run:
  assumes "observer s = Some ob"
  shows "is_visible (host_run rounds s) r
     = (is_visible s r \<or> r \<in> set (observationTargets ob)
        \<and> list_ex (\<lambda>x. observed x = r \<and> counts_as_intersecting ob (ratio x)) (concat rounds))"
  by (simp only: host_run_deliver [OF assms] deliver_concat is_visible_callback revealed_rounds)

lemma counts_at_threshold:
  "thresholds ob = [t] \<Longrightarrow> counts_as_intersecting ob q = (t \<le> q)"
  by (simp add: counts_as_intersecting_def)

section \<open>The reveal state machine\<close>

text \<open>
  C1 (monotonic visibility). Once an entry for an element with \<open>isIntersecting\<close> true has
  been processed, the element carries the class \<open>visible\<close>: right after that entry, and after
  any entries that follow it, in the same batch (\<open>b2\<close>) and in every later batch (\<open>post\<close>),
  whatever their \<open>isIntersecting\<close> values and whatever was delivered before.
\<close>

theorem visible_monotonic:
  assumes "isIntersecting ev"
  shows "is_visible (on_entry ev s) (target ev)
     \<and> is_visible (callback (b1 @ [ev]) (deliver pre s)) (target ev)
     \<and> is_visible (deliver (pre @ [b1 @ [ev] @ b2] @ post) s) (target ev)"
  using assms
  by (simp add: deliver_concat heap_callback heap_on_entry is_visible_def add_token_member)

theorem visible_monotonic_witness:
  "isIntersecting \<lparr>target = 1, isIntersecting = True\<rparr>
   \<and> \<not> is_visible sample_page 1
   \<and> is_visible (deliver [[\<lparr>target = 2, isIntersecting = False\<rparr>],
         [\<lparr>target = 1, isIntersecting = True\<rparr>, \<lparr>target = 1, isIntersecting = False\<rparr>],
         [\<lparr>target = 1, isIntersecting = False\<rparr>, \<lparr>target = 2, isIntersecting = True\<rparr>]]
        sample_page) 1"
  using visible_monotonic [of "\<lparr>target = 1, isIntersecting = True\<rparr>" sample_page "[]"
      "[[\<lparr>target = 2, isIntersecting = False\<rparr>]]"
      "[\<lparr>target = 1, isIntersecting = False\<rparr>]"
      "[[\<lparr>target = 1, isIntersecting = False\<rparr>, \<lparr>target = 2, isIntersecting = True\<rparr>]]"]
  by (simp add: is_visible_def sample_defs)

text \<open>
  C2 (asymmetric handling). An entry whose \<open>isIntersecting\<close> is false changes nothing: the
  page after it is the page before it, whatever the state of its target, and a batch gives
  the same page with or without such an entry.
\<close>

theorem not_intersecting_no_action:
  assumes "\<not> isIntersecting ev"
  shows "on_entry ev s = s \<and> callback [ev] s = s
     \<and> callback (b1 @ [ev] @ b2) s = callback (b1 @ b2) s"
  using assms by (simp add: callback_def on_entry_def)

theorem not_intersecting_no_action_witness:
  "\<not> isIntersecting \<lparr>target = 3, isIntersecting = False\<rparr>
   \<and> is_visible sample_page 3
   \<and> callback [\<lparr>target = 3, isIntersecting = False\<rparr>] sample_page = sample_page
   \<and> \<not> isIntersecting \<lparr>target = 2, isIntersecting = False\<rparr>
   \<and> \<not> is_visible sample_page 2
   \<and> callback [\<lparr>target = 2, isIntersecting = False\<rparr>] sample_page = sample_page"
  using not_intersecting_no_action [of "\<lparr>target = 3, isIntersecting = False\<rparr>" sample_page "[]" "[]"]
    not_intersecting_no_action [of "\<lparr>target = 2, isIntersecting = False\<rparr>" sample_page "[]" "[]"]
  by (simp add: is_visible_def sample_defs)

text \<open>
  C4 (idempotent reveal). Two consecutive intersecting entries for an element, in one batch
  or in two, leave the page exactly as one of them does; the class list of the element,
  a token set, stays free of duplicates and holds \<open>visible\<close> once. The callback has no
  failing branch.
\<close>

theorem reveal_idempotent:
  assumes "isIntersecting ev" and "distinct (classList (heap s (target ev)))"
  shows "callback [ev, ev] s = callback [ev] s
     \<and> deliver [[ev], [ev]] s = deliver [[ev]] s
     \<and> distinct (classList (heap (callback [ev, ev] s) (target ev)))
     \<and> count_list (classList (heap (callback [ev, ev] s) (target ev))) ''visible'' = 1"
  using assms
  by (simp add: deliver_def callback_def on_entry_idem heap_on_entry add_token_distinct
      add_token_count)

theorem reveal_idempotent_witness:
  "isIntersecting \<lparr>target = 1, isIntersecting = True\<rparr>
   \<and> distinct (classList (heap sample_page 1))
   \<and> classList (heap (callback [\<lparr>target = 1, isIntersecting = True\<rparr>,
         \<lparr>target = 1, isIntersecting = True\<rparr>] sample_page) 1) = [''card'', ''reveal'', ''visible'']
   \<and> callback [\<lparr>target = 1, isIntersecting = True\<rparr>, \<lparr>target = 1, isIntersecting = True\<rparr>]
         sample_page = callback [\<lparr>target = 1, isIntersecting = True\<rparr>] sample_page"
  using reveal_idempotent [of "\<lparr>target = 1, isIntersecting = True\<rparr>" sample_page]
  by (simp add: sample_defs callback_def heap_on_entry add_token_def)

text \<open>
  C5 (hidden without an intersecting entry). An element that is hidden when the script
  starts, and for which no entry with \<open>isIntersecting\<close> true is delivered, is hidden after
  the script has run and after any batches: nothing about the element object has changed.
\<close>

theorem hidden_without_intersection:
  assumes "list_all (list_all (\<lambda>e. target e = r \<longrightarrow> \<not> isIntersecting e)) batches"
    and "\<not> is_visible s r"
  shows "\<not> is_visible (deliver batches (snd (run_script ev s))) r
     \<and> heap (deliver batches (snd (run_script ev s))) r = heap s r
     \<and> heap (deliver batches s) r = heap s r"
proof -
  have "r \<notin> set (map target (filter isIntersecting (concat batches)))"
    using assms(1) by (auto simp: list_all_iff)
  then have "heap (deliver batches s') r = heap s' r" for s'
    by (simp add: deliver_concat heap_callback)
  then show ?thesis
    using assms(2) by (simp add: is_visible_def run_script_heap)
qed

theorem hidden_without_intersection_witness:
  "list_all (list_all (\<lambda>e. target e = 2 \<longrightarrow> \<not> isIntersecting e))
     [[\<lparr>target = 1, isIntersecting = True\<rparr>, \<lparr>target = 2, isIntersecting = False\<rparr>],
      [\<lparr>target = 2, isIntersecting = False\<rparr>]]
   \<and> \<not> is_visible sample_page 2
   \<and> \<not> is_visible (deliver
         [[\<lparr>target = 1, isIntersecting = True\<rparr>, \<lparr>target = 2, isIntersecting = False\<rparr>],
          [\<lparr>target = 2, isIntersecting = False\<rparr>]]
         (snd (run_script sample_env sample_page))) 2"
  using hidden_without_intersection [of 2
      "[[\<lparr>target = 1, isIntersecting = True\<rparr>, \<lparr>target = 2, isIntersecting = False\<rparr>],
        [\<lparr>target = 2, isIntersecting = False\<rparr>]]" sample_page sample_env]
  by (simp add: is_visible_def sample_defs)

text \<open>
  C10 (frame of the callback). A batch changes no field of the page but the element store.
  There it changes the targets of the intersecting entries of the batch, and of those only
  the class list, to which \<open>visible\<close> is added; every other element object is as it was.
  No class is removed from any element: each class list is what it was, or that with
  \<open>visible\<close> appended.
\<close>

theorem callback_frame:
  "root (callback b s) = root s \<and> observer (callback b s) = observer s
   \<and> listeners (callback b s) = listeners s
   \<and> heap (callback b s) r =
       (if r \<in> set (map target (filter isIntersecting b))
        then (heap s r)\<lparr>classList := add_token ''visible'' (classList (heap s r))\<rparr>
        else heap s r)
   \<and> set (classList (heap s r)) \<subseteq> set (classList (heap (callback b s) r))
   \<and> (classList (heap (callback b s) r) = classList (heap s r)
       \<or> classList (heap (callback b s) r) = classList (heap s r) @ [''visible''])"
proof -
  have "set (classList (heap s r)) \<subseteq> set (classList (heap (callback b s) r))"
    using add_token_keeps [of "classList (heap s r)" "''visible''"]
    by (simp add: heap_callback)
  moreover have "classList (heap (callback b s) r) = classList (heap s r)
       \<or> classList (heap (callback b s) r) = classList (heap s r) @ [''visible'']"
    by (simp add: heap_callback add_token_def)
  ultimately show ?thesis
    using callback_rest [of b s] heap_callback [of b s r] by simp
qed

theorem callback_frame_witness:
  "heap (callback [\<lparr>target = 1, isIntersecting = True\<rparr>, \<lparr>target = 2, isIntersecting = False\<rparr>]
      sample_page) 2 = heap sample_page 2
   \<and> heap (callback [\<lparr>target = 1, isIntersecting = True\<rparr>, \<lparr>target = 2, isIntersecting = False\<rparr>]
      sample_page) 1 = (heap sample_page 1)\<lparr>classList := [''card'', ''reveal'', ''visible'']\<rparr>
   \<and> root (callback [\<lparr>target = 1, isIntersecting = True\<rparr>, \<lparr>target = 2, isIntersecting = False\<rparr>]
      sample_page) = sample_root"
  using callback_frame [of "[\<lparr>target = 1, isIntersecting = True\<rparr>, \<lparr>target = 2, isIntersecting = False\<rparr>]"
      sample_page 2]
    callback_frame [of "[\<lparr>target = 1, isIntersecting = True\<rparr>, \<lparr>target = 2, isIntersecting = False\<rparr>]"
      sample_page 1]
  by (simp add: sample_defs add_token_def)


section \<open>The one-shot effects\<close>

text \<open>
  C3 (missing targets), as the spec states it: a selector that matches nothing makes the
  script skip the effect silently. The script has no such guard. On the sample page without
  the year placeholder the year statement raises a TypeError, and the form, which is there,
  gets no listener.
\<close>

theorem missing_year_counterexample:
  "fst (run_script sample_env page_without_year) = Some TypeError
   \<and> querySelector page_without_year (ClassSel ''upload-form'') = Some 4
   \<and> listeners (snd (run_script sample_env page_without_year)) = []"
  by (simp add: script_defs sample_defs)

text \<open>
  C3, amended. With no element of id \<open>year\<close>, the year statement raises a TypeError that
  ends the script: the document and the listeners are as before. With the year element
  present and no element of class \<open>upload-form\<close>, the year is stamped and the form statement
  raises a TypeError: no listener is added. In both cases the observer created before stays.
\<close>

theorem missing_target_throws:
  "(getElementById s ''year'' = None \<longrightarrow>
      fst (run_script ev s) = Some TypeError
      \<and> root (snd (run_script ev s)) = root s
      \<and> listeners (snd (run_script ev s)) = listeners s
      \<and> observer (snd (run_script ev s)) = observer (snd (init_reveal s)))
   \<and> (getElementById s ''year'' = Some y \<and> querySelector s (ClassSel ''upload-form'') = None \<longrightarrow>
      fst (run_script ev s) = Some TypeError
      \<and> textContent (snd (run_script ev s)) y = Some (Number_toString (getFullYear ev))
      \<and> listeners (snd (run_script ev s)) = listeners s
      \<and> observer (snd (run_script ev s)) = observer (snd (init_reveal s)))"
proof -
  have "fst (rest_of_script ev s) = Some TypeError \<and> root (snd (rest_of_script ev s)) = root s
      \<and> listeners (snd (rest_of_script ev s)) = listeners s"
    if "getElementById s ''year'' = None"
    using that by (simp add: rest_of_script_def stamp_year_def)
  moreover have "fst (rest_of_script ev s) = Some TypeError
      \<and> listeners (snd (rest_of_script ev s)) = listeners s"
    if "getElementById s ''year'' = Some y" and "querySelector s (ClassSel ''upload-form'') = None"
    using that querySelector_after_stamp [OF that(2)]
    by (simp add: rest_of_script_def stamp_year_def bind_form_def set_textContent_def)
  ultimately show ?thesis
    by (simp add: run_script_eq init_reveal_eq textContent_observer rest_of_script_year)
qed

theorem missing_target_throws_witness:
  "getElementById page_without_year ''year'' = None
   \<and> fst (run_script sample_env page_without_year) = Some TypeError
   \<and> root (snd (run_script sample_env page_without_year)) = sample_root
   \<and> getElementById page_without_form ''year'' = Some 6
   \<and> querySelector page_without_form (ClassSel ''upload-form'') = None
   \<and> fst (run_script sample_env page_without_form) = Some TypeError
   \<and> textContent (snd (run_script sample_env page_without_form)) 6 = Some ''2026''
   \<and> listeners (snd (run_script sample_env page_without_form)) = []"
proof -
  have g1: "getElementById page_without_year ''year'' = None"
    by (simp add: getElementById_def sample_defs)
  have g2: "getElementById page_without_form ''year'' = Some 6"
    by (simp add: getElementById_def sample_defs)
  have f2: "querySelector page_without_form (ClassSel ''upload-form'') = None"
    by (simp add: querySelector_def sample_defs)
  have r1: "root page_without_year = sample_root" and l2: "listeners page_without_form = []"
    by (simp_all add: sample_defs)
  have "Number_toString 2026 = ''2026''"
    by code_simp
  then have n: "Number_toString (getFullYear sample_env) = ''2026''"
    by (simp add: sample_env_def)
  show ?thesis
    using missing_target_throws [where s = page_without_year and ev = sample_env and y = 6]
      missing_target_throws [where s = page_without_form and ev = sample_env and y = 6]
      g1 g2 f2
    by (simp add: r1 l2 n)
qed

text \<open>
  C6 (one submission). When the submitted form has a \<open>button\<close> descendant, the handler ends
  without an exception and leaves: the default action prevented, the text content of the
  first such button equal to the confirmation label, and the button disabled. Nothing else
  changes: the other element objects, the other fields of the button, the observer and
  the listeners are as before, and the document differs only in the children of the button.
\<close>

theorem submit_once:
  assumes "querySelector_in s (event_target event) (TypeSel ''button'') = Some b"
  shows "(case submit_handler event s of (err, event', s') \<Rightarrow>
      err = None \<and> defaultPrevented event' \<and> event_target event' = event_target event
      \<and> textContent s' b = Some submitted_label
      \<and> disabled (heap s' b)
      \<and> heap s' = (heap s)(b := (heap s b)\<lparr>disabled := True\<rparr>)
      \<and> root s' = replace_children b [Text submitted_label] (root s)
      \<and> observer s' = observer s \<and> listeners s' = listeners s)"
proof -
  have "b \<in> set (elements (root s))"
    using assms by (rule querySelector_in_connected)
  then have "textContent (set_textContent b submitted_label s) b = Some submitted_label"
    by (rule textContent_set_textContent)
  moreover have "text_children submitted_label = [Text submitted_label]"
    by (simp add: text_children_def submitted_label_def)
  ultimately show ?thesis
    using assms
    by (simp add: submit_handler_def textContent_set_disabled)
       (simp add: set_disabled_def set_textContent_def)
qed

theorem submit_once_witness:
  "listeners (snd (run_script sample_env sample_page)) = [4]
   \<and> querySelector_in (snd (run_script sample_env sample_page)) 4 (TypeSel ''button'') = Some 5
   \<and> \<not> disabled (heap (snd (run_script sample_env sample_page)) 5)
   \<and> (case submit_handler \<lparr>event_target = 4, defaultPrevented = False\<rparr>
              (snd (run_script sample_env sample_page)) of
         (err, event', s') \<Rightarrow>
           err = None \<and> defaultPrevented event'
           \<and> textContent s' 5 = Some (''Project Submitted '' @ [CHR 0xE2, CHR 0x9C, CHR 0x93])
           \<and> disabled (heap s' 5))"
proof -
  have q: "querySelector_in (snd (run_script sample_env sample_page)) 4 (TypeSel ''button'') = Some 5"
    by (simp add: script_defs sample_defs querySelector_in_def)
  have l: "listeners (snd (run_script sample_env sample_page)) = [4]"
    by (simp add: script_defs sample_defs)
  have d: "\<not> disabled (heap (snd (run_script sample_env sample_page)) 5)"
    by (simp add: run_script_heap sample_defs)
  have q': "querySelector_in (snd (run_script sample_env sample_page))
      (event_target \<lparr>event_target = 4, defaultPrevented = False\<rparr>) (TypeSel ''button'') = Some 5"
    using q by simp
  show ?thesis
    using submit_once [OF q'] q l d
    by (simp add: submitted_label_def split: prod.splits)
qed

text \<open>
  C7 (year stamp). When the page has an element of id \<open>year\<close>, its text content after the
  script has run is the decimal form of the clock's year, whether or not the form statement
  that follows succeeds; for a year from 1000 to 9999 that is the four digits of the year.
\<close>

theorem year_stamped:
  assumes "getElementById s ''year'' = Some y"
    and "1000 \<le> getFullYear ev" and "getFullYear ev \<le> 9999"
  shows "textContent (snd (run_script ev s)) y = Some (Number_toString (getFullYear ev))
     \<and> Number_toString (getFullYear ev) =
         [digit_char (nat (getFullYear ev) div 1000), digit_char (nat (getFullYear ev) div 100 mod 10),
          digit_char (nat (getFullYear ev) div 10 mod 10), digit_char (nat (getFullYear ev) mod 10)]
     \<and> length (Number_toString (getFullYear ev)) = 4"
proof -
  have "Number_toString (getFullYear ev) = decimal (nat (getFullYear ev))"
    using assms(2) by (simp add: Number_toString_def)
  moreover have "1000 \<le> nat (getFullYear ev)" "nat (getFullYear ev) \<le> 9999"
    using assms(2,3) by simp_all
  ultimately show ?thesis
    using run_script_year [OF assms(1), of ev] by (simp add: decimal_four_digits)
qed

theorem year_stamped_witness:
  "getElementById sample_page ''year'' = Some 6
   \<and> 1000 \<le> getFullYear sample_env \<and> getFullYear sample_env \<le> 9999
   \<and> textContent sample_page 6 = Some []
   \<and> textContent (snd (run_script sample_env sample_page)) 6 = Some ''2026''"
proof -
  have g: "getElementById sample_page ''year'' = Some 6"
    by (simp add: getElementById_def sample_defs)
  have lo: "1000 \<le> getFullYear sample_env" and hi: "getFullYear sample_env \<le> 9999"
    by (simp_all add: sample_env_def)
  have before: "textContent sample_page 6 = Some []"
    by (simp add: textContent_def sample_defs)
  have "Number_toString 2026 = ''2026''"
    by code_simp
  then have n: "Number_toString (getFullYear sample_env) = ''2026''"
    by (simp add: sample_env_def)
  show ?thesis
    using year_stamped [OF g lo hi] g lo hi before by (simp only: n simp_thms)
qed

text \<open>
  C8 (threshold). Creating the observer raises nothing, and after the script has run, with
  or without an exception in its later statements, there is one observer: its only
  threshold is 0.2, and the elements it observes are the elements of class \<open>reveal\<close> of
  the document, each registered once. For that observer a ratio counts as intersecting
  exactly when it is at least 0.2, and the host's entries are those of the registered
  elements, every one judged against that one threshold. So, over any rounds of
  observations, an element is visible afterwards exactly when it was visible before or it
  is a marked element that was observed with at least 20% of its area within the viewport.
\<close>

theorem observes_all_at_threshold:
  "fst (init_reveal s) = None
   \<and> (\<exists>ob. observer (snd (run_script ev s)) = Some ob
     \<and> thresholds ob = [2 / 10]
     \<and> set (observationTargets ob) = set (querySelectorAll s (ClassSel ''reveal''))
     \<and> distinct (observationTargets ob)
     \<and> (\<forall>q. counts_as_intersecting ob q = (2 / 10 \<le> q))
     \<and> (\<forall>obs. notify ob obs =
           map (\<lambda>x. \<lparr>target = observed x, isIntersecting = (2 / 10 \<le> ratio x)\<rparr>)
             (filter (\<lambda>x. observed x \<in> set (querySelectorAll s (ClassSel ''reveal''))) obs)))
   \<and> is_visible (host_run rounds (snd (run_script ev s))) r
       = (is_visible s r
          \<or> r \<in> set (querySelectorAll s (ClassSel ''reveal''))
            \<and> list_ex (\<lambda>x. observed x = r \<and> 2 / 10 \<le> ratio x) (concat rounds))"
proof -
  let ?ob = "fold observe (querySelectorAll s (ClassSel ''reveal''))
      \<lparr>thresholds = [threshold], observationTargets = []\<rparr>"
  have ob: "observer (snd (run_script ev s)) = Some ?ob"
    by (simp add: run_script_eq)
  have th: "thresholds ?ob = [2 / 10]"
    by (simp add: observe_thresholds threshold_def)
  have tg: "set (observationTargets ?ob) = set (querySelectorAll s (ClassSel ''reveal''))"
    by (simp add: observe_targets)
  have di: "distinct (observationTargets ?ob)"
    by (simp add: observe_distinct)
  have co: "counts_as_intersecting ?ob q = (2 / 10 \<le> q)" for q
    by (rule counts_at_threshold [OF th])
  have no: "notify ?ob obs =
      map (\<lambda>x. \<lparr>target = observed x, isIntersecting = (2 / 10 \<le> ratio x)\<rparr>)
        (filter (\<lambda>x. observed x \<in> set (querySelectorAll s (ClassSel ''reveal''))) obs)" for obs
    unfolding notify_def co tg ..
  have vi: "is_visible (host_run rounds (snd (run_script ev s))) r
       = (is_visible s r
          \<or> r \<in> set (querySelectorAll s (ClassSel ''reveal''))
            \<and> list_ex (\<lambda>x. observed x = r \<and> 2 / 10 \<le> ratio x) (concat rounds))"
    unfolding is_visible_host_run [OF ob] co tg
    by (simp add: is_visible_def run_script_heap)
  have "fst (init_reveal s) = None"
    by (simp add: init_reveal_eq)
  then show ?thesis
    using ob th tg di co no vi by blast
qed


theorem observes_all_at_threshold_witness:
  "querySelectorAll sample_page (ClassSel ''reveal'') = [1, 2, 3]
   \<and> observer (snd (run_script sample_env sample_page))
     = Some \<lparr>thresholds = [2 / 10], observationTargets = [1, 2, 3]\<rparr>
   \<and> observer (snd (run_script sample_env page_without_year))
     = Some \<lparr>thresholds = [2 / 10], observationTargets = [1, 2, 3]\<rparr>
   \<and> \<not> is_visible sample_page 1 \<and> \<not> is_visible sample_page 2
   \<and> is_visible (host_run
         [[\<lparr>observed = 1, ratio = 25 / 100\<rparr>, \<lparr>observed = 2, ratio = 10 / 100\<rparr>]]
         (snd (run_script sample_env sample_page))) 1
   \<and> \<not> is_visible (host_run
         [[\<lparr>observed = 1, ratio = 25 / 100\<rparr>, \<lparr>observed = 2, ratio = 10 / 100\<rparr>]]
         (snd (run_script sample_env sample_page))) 2
   \<and> is_visible (host_run
         [[\<lparr>observed = 1, ratio = 25 / 100\<rparr>, \<lparr>observed = 2, ratio = 10 / 100\<rparr>],
          [\<lparr>observed = 2, ratio = 30 / 100\<rparr>, \<lparr>observed = 1, ratio = 0\<rparr>]]
         (snd (run_script sample_env sample_page))) 2
   \<and> \<not> is_visible (host_run [[\<lparr>observed = 5, ratio = 1\<rparr>]]
         (snd (run_script sample_env sample_page))) 5"
proof -
  have q: "querySelectorAll sample_page (ClassSel ''reveal'') = [1, 2, 3]"
    by (simp add: querySelectorAll_def sample_defs)
  have o1: "observer (snd (run_script sample_env sample_page))
     = Some \<lparr>thresholds = [2 / 10], observationTargets = [1, 2, 3]\<rparr>"
    by (simp add: script_defs sample_defs)
  have o2: "observer (snd (run_script sample_env page_without_year))
     = Some \<lparr>thresholds = [2 / 10], observationTargets = [1, 2, 3]\<rparr>"
    by (simp add: script_defs sample_defs)
  have h: "\<not> is_visible sample_page 1" "\<not> is_visible sample_page 2"
    "\<not> is_visible sample_page 5"
    by (simp_all add: is_visible_def sample_defs)
  show ?thesis
    using
      observes_all_at_threshold [where ev = sample_env and s = sample_page and r = 1 and rounds =
        "[[\<lparr>observed = 1, ratio = 25 / 100\<rparr>, \<lparr>observed = 2, ratio = 10 / 100\<rparr>]]"]
      observes_all_at_threshold [where ev = sample_env and s = sample_page and r = 2 and rounds =
        "[[\<lparr>observed = 1, ratio = 25 / 100\<rparr>, \<lparr>observed = 2, ratio = 10 / 100\<rparr>]]"]
      observes_all_at_threshold [where ev = sample_env and s = sample_page and r = 2 and rounds =
        "[[\<lparr>observed = 1, ratio = 25 / 100\<rparr>, \<lparr>observed = 2, ratio = 10 / 100\<rparr>],
          [\<lparr>observed = 2, ratio = 30 / 100\<rparr>, \<lparr>observed = 1, ratio = 0\<rparr>]]"]
      observes_all_at_threshold [where ev = sample_env and s = sample_page and r = 5 and rounds =
        "[[\<lparr>observed = 5, ratio = 1\<rparr>]]"]
      q o1 o2 h
    by simp
qed

text \<open>
  C9 (no revealable element). When no element has the class \<open>reveal\<close>, the controller part
  of the script raises nothing and leaves an observer that observes nothing; the outcome of
  the script is that of its remaining statements run alone, with that observer added.
\<close>

theorem empty_reveal_set:
  assumes "querySelectorAll s (ClassSel ''reveal'') = []"
  shows "init_reveal s
       = (None, s\<lparr>observer := Some \<lparr>thresholds = [2 / 10], observationTargets = []\<rparr>\<rparr>)
     \<and> run_script ev s
       = (fst (rest_of_script ev s),
          (snd (rest_of_script ev s))
            \<lparr>observer := Some \<lparr>thresholds = [2 / 10], observationTargets = []\<rparr>\<rparr>)"
  using assms by (simp add: run_script_eq init_reveal_eq threshold_def)

theorem empty_reveal_set_witness:
  "querySelectorAll page_without_reveal (ClassSel ''reveal'') = []
   \<and> fst (run_script sample_env page_without_reveal) = None
   \<and> observer (snd (run_script sample_env page_without_reveal))
       = Some \<lparr>thresholds = [2 / 10], observationTargets = []\<rparr>
   \<and> textContent (snd (run_script sample_env page_without_reveal)) 6 = Some ''2026''
   \<and> listeners (snd (run_script sample_env page_without_reveal)) = [4]"
proof -
  have e: "querySelectorAll page_without_reveal (ClassSel ''reveal'') = []"
    by (simp add: querySelectorAll_def sample_defs)
  have "Number_toString 2026 = ''2026''"
    by code_simp
  then have n: "Number_toString (getFullYear sample_env) = ''2026''"
    by (simp add: sample_env_def)
  have r: "fst (rest_of_script sample_env page_without_reveal) = None"
    "listeners (snd (rest_of_script sample_env page_without_reveal)) = [4]"
    "textContent (snd (rest_of_script sample_env page_without_reveal)) 6 = Some ''2026''"
    by (simp_all add: rest_of_script_def stamp_year_def bind_form_def getElementById_def
        querySelector_def set_textContent_def addEventListener_def text_children_def
        textContent_def n sample_page_def sample_root_def sample_heap_def blank_def
        page_without_reveal_def)
  show ?thesis
    using empty_reveal_set [OF e, of sample_env] e r
    by (simp add: textContent_observer)
qed


end
